theory Spec2Isabelle
  imports Main "HOL-Library.Sublist"
begin

section \<open>The exporter interface\<close>

text \<open>
  A Go \<^verbatim>\<open>error\<close> value is an \<open>error option\<close>: \<open>None\<close> is \<^verbatim>\<open>nil\<close>, and
  \<open>Some (Error msg)\<close> is an error whose \<^verbatim>\<open>Error()\<close> text is \<open>msg\<close>.
\<close>

datatype error = Error string

text \<open>
  An implementation of the \<^verbatim>\<open>Exporter\<close> interface. The two methods run on a world
  \<open>'w\<close> (the memory and devices the implementation touches) and return their error
  together with the world they leave. \<open>ident\<close> stands for the identity of the object
  behind the interface value. The batch types \<open>'b\<close> and \<open>'c\<close> are the slices
  \<^verbatim>\<open>[]*entity.UploadSpan\<close> and \<^verbatim>\<open>[]*entity.UploadFile\<close>; the \<^verbatim>\<open>entity\<close>
  package is not part of the sources at hand, so both are type parameters. The
  \<^verbatim>\<open>context.Context\<close> argument is only handed on and to the logger, and logging is
  not part of the model. A method of a child is taken to return: a child that panics or
  never returns is outside the interface's contract and outside this model.
\<close>

record ('b, 'c, 'w) Exporter =
  ident :: nat
  ExportSpans_of :: "'b \<Rightarrow> 'w \<Rightarrow> error option \<times> 'w"
  ExportFiles_of :: "'c \<Rightarrow> 'w \<Rightarrow> error option \<times> 'w"

text \<open>
  An interface value is \<open>None\<close> (the \<^verbatim>\<open>nil\<close> interface) or \<open>Some e\<close>. A method call
  through the \<^verbatim>\<open>nil\<close> interface panics. An interface value that wraps a \<^verbatim>\<open>nil\<close> pointer
  is not the \<^verbatim>\<open>nil\<close> interface: the comparison \<^verbatim>\<open>e != nil\<close> holds for it, and it is a
  \<open>Some e\<close> here. A batch is passed as a value; a child that writes into the slice it
  receives is not modelled.
\<close>

type_synonym ('b, 'c, 'w) iface = "('b, 'c, 'w) Exporter option"

datatype panic = NilDereference

text \<open>One dynamic call made by the multi-exporter: which child, which method, which batch.\<close>

datatype ('b, 'c) invocation = SpansCall nat 'b | FilesCall nat 'c


section \<open>MultiExporter\<close>

record ('b, 'c, 'w) MultiExporter =
  exporters :: "('b, 'c, 'w) iface list"

text \<open>The filtering loop of \<^verbatim>\<open>NewMultiExporter\<close>, with \<^verbatim>\<open>validExporters\<close> as accumulator.\<close>

fun filter_valid :: "('b, 'c, 'w) iface list \<Rightarrow> ('b, 'c, 'w) iface list \<Rightarrow> ('b, 'c, 'w) iface list" where
  "filter_valid [] validExporters = validExporters"
| "filter_valid (e # es) validExporters =
     filter_valid es (if e \<noteq> None then validExporters @ [e] else validExporters)"

definition NewMultiExporter :: "('b, 'c, 'w) iface list \<Rightarrow> ('b, 'c, 'w) MultiExporter" where
  "NewMultiExporter args = \<lparr> exporters = filter_valid args [] \<rparr>"

definition AddExporter :: "('b, 'c, 'w) MultiExporter \<Rightarrow> ('b, 'c, 'w) iface \<Rightarrow> ('b, 'c, 'w) MultiExporter" where
  "AddExporter m exporter =
     (if exporter \<noteq> None then m\<lparr> exporters := exporters m @ [exporter] \<rparr> else m)"

definition ExporterCount :: "('b, 'c, 'w) MultiExporter \<Rightarrow> int" where
  "ExporterCount m = int (length (exporters m))"

text \<open>
  The loop of \<^verbatim>\<open>ExportSpans\<close>: \<open>firstErr\<close> is the variable of that name, \<open>tr\<close> collects
  the calls made so far, \<open>w\<close> is the world. The result is the panic, or the returned
  error with the calls made and the world left.
\<close>

fun ExportSpans_loop ::
  "('b, 'c, 'w) iface list \<Rightarrow> 'b \<Rightarrow> error option \<Rightarrow> ('b, 'c) invocation list \<Rightarrow> 'w
     \<Rightarrow> panic + (error option \<times> ('b, 'c) invocation list \<times> 'w)" where
  "ExportSpans_loop [] spans firstErr tr w = Inr (firstErr, tr, w)"
| "ExportSpans_loop (None # es) spans firstErr tr w = Inl NilDereference"
| "ExportSpans_loop (Some exporter # es) spans firstErr tr w =
     (case ExportSpans_of exporter spans w of
        (err, w') \<Rightarrow>
          ExportSpans_loop es spans
            (if err \<noteq> None then (if firstErr = None then err else firstErr) else firstErr)
            (tr @ [SpansCall (ident exporter) spans]) w')"

definition ExportSpans ::
  "('b, 'c, 'w) MultiExporter \<Rightarrow> 'b \<Rightarrow> 'w
     \<Rightarrow> panic + (error option \<times> ('b, 'c) invocation list \<times> 'w)" where
  "ExportSpans m spans w =
     (if length (exporters m) = 0 then Inr (None, [], w)
      else ExportSpans_loop (exporters m) spans None [] w)"

fun ExportFiles_loop ::
  "('b, 'c, 'w) iface list \<Rightarrow> 'c \<Rightarrow> error option \<Rightarrow> ('b, 'c) invocation list \<Rightarrow> 'w
     \<Rightarrow> panic + (error option \<times> ('b, 'c) invocation list \<times> 'w)" where
  "ExportFiles_loop [] files firstErr tr w = Inr (firstErr, tr, w)"
| "ExportFiles_loop (None # es) files firstErr tr w = Inl NilDereference"
| "ExportFiles_loop (Some exporter # es) files firstErr tr w =
     (case ExportFiles_of exporter files w of
        (err, w') \<Rightarrow>
          ExportFiles_loop es files
            (if err \<noteq> None then (if firstErr = None then err else firstErr) else firstErr)
            (tr @ [FilesCall (ident exporter) files]) w')"

definition ExportFiles ::
  "('b, 'c, 'w) MultiExporter \<Rightarrow> 'c \<Rightarrow> 'w
     \<Rightarrow> panic + (error option \<times> ('b, 'c) invocation list \<times> 'w)" where
  "ExportFiles m files w =
     (if length (exporters m) = 0 then Inr (None, [], w)
      else ExportFiles_loop (exporters m) files None [] w)"

text \<open>
  A multi-exporter as client code can obtain one: the field is unexported, so it is the
  result of \<^verbatim>\<open>NewMultiExporter\<close> followed by any number of \<^verbatim>\<open>AddExporter\<close> calls.
\<close>

definition built :: "('b, 'c, 'w) iface list \<Rightarrow> ('b, 'c, 'w) iface list \<Rightarrow> ('b, 'c, 'w) MultiExporter" where
  "built args added = foldl AddExporter (NewMultiExporter args) added"


subsection \<open>The mock exporter of the tests\<close>

record ('b, 'c) mockExporter =
  exportSpansCalled :: bool
  exportFilesCalled :: bool
  exportSpansErr :: "error option"
  exportFilesErr :: "error option"
  exportedSpans :: "'b option"
  exportedFiles :: "'c option"

text \<open>The world of the tests is a heap of mock objects, addressed by their identity.\<close>

type_synonym ('b, 'c) mock_heap = "nat \<Rightarrow> ('b, 'c) mockExporter"

definition mock :: "nat \<Rightarrow> ('b, 'c, ('b, 'c) mock_heap) Exporter" where
  "mock a = \<lparr> ident = a,
      ExportSpans_of = (\<lambda>spans h.
         (exportSpansErr (h a), h(a := (h a)\<lparr> exportSpansCalled := True, exportedSpans := Some spans \<rparr>))),
      ExportFiles_of = (\<lambda>files h.
         (exportFilesErr (h a), h(a := (h a)\<lparr> exportFilesCalled := True, exportedFiles := Some files \<rparr>))) \<rparr>"

definition fresh_mock :: "error option \<Rightarrow> error option \<Rightarrow> ('b, 'c) mockExporter" where
  "fresh_mock se fe = \<lparr> exportSpansCalled = False, exportFilesCalled = False,
      exportSpansErr = se, exportFilesErr = fe, exportedSpans = None, exportedFiles = None \<rparr>"

text \<open>
  The objects of the tests: two mocks at the addresses 1 and 2, on a heap where the first
  fails both operations and the second fails \<^verbatim>\<open>ExportSpans\<close> only. A batch is a list of
  span (or file) names here.
\<close>

type_synonym test_iface = "(string list, string list, (string list, string list) mock_heap) iface"

definition exp1 :: "(string list, string list, (string list, string list) mock_heap) Exporter" where
  "exp1 = mock 1"

definition exp2 :: "(string list, string list, (string list, string list) mock_heap) Exporter" where
  "exp2 = mock 2"

definition test_heap :: "(string list, string list) mock_heap" where
  "test_heap = (\<lambda>a. if a = 1 then fresh_mock (Some (Error ''first error'')) (Some (Error ''exp1 error''))
                     else if a = 2 then fresh_mock (Some (Error ''second error'')) None
                     else fresh_mock None None)"


section \<open>FileExporter\<close>

definition DefaultLocalExportPath :: string where
  "DefaultLocalExportPath = ''./cozeloop_traces.md''"

text \<open>The mutex field guards concurrent calls; the model runs one call at a time.\<close>

record FileExporter =
  filePath :: string

definition NewFileExporter :: "string \<Rightarrow> FileExporter" where
  "NewFileExporter p = \<lparr> filePath = (if p = [] then DefaultLocalExportPath else p) \<rparr>"


text \<open>A file-system operation performed by a call, recorded with its outcome.\<close>

datatype fs_op = MkdirAll string | OpenFile string | Write string | CloseFile

type_synonym fs_event = "fs_op \<times> error option"




text \<open>\<^verbatim>\<open>FileExporter.ExportFiles\<close> has the single statement \<^verbatim>\<open>return nil\<close>.\<close>

definition FileExporter_ExportFiles ::
  "FileExporter \<Rightarrow> 'c \<Rightarrow> 'fs \<Rightarrow> error option \<times> fs_event list \<times> 'fs" where
  "FileExporter_ExportFiles e files fs = (None, [], fs)"


subsection \<open>A small file system\<close>

text \<open>
  A file system to run the exporter on: regular files with their contents, directories,
  and a number of free bytes. A write beyond the free space stores what fits and fails. A
  handle is the path it was opened on. \<open>simple_Dir\<close> cuts a path at its last separator,
  which is what \<^verbatim>\<open>filepath.Dir\<close> returns for a path that is already clean.
\<close>

record simple_fs =
  fs_files :: "string \<Rightarrow> string option"
  fs_dirs :: "string list"
  fs_free :: nat






text \<open>
  The state of the test "should append to existing file" before its second batch: the
  directory and the file exist, and \<open>n\<close> bytes are free. \<open>test_md\<close> is a one-line
  rendering of a span given by its trace id.
\<close>

definition test_fs :: "nat \<Rightarrow> simple_fs" where
  "test_fs n = \<lparr> fs_files = [''/tmp/t/test_traces.md'' \<mapsto> ''first_span;''], fs_dirs = [''/tmp/t''], fs_free = n \<rparr>"





section \<open>The bounded queue\<close>

text \<open>
  Modelled from the spec: the bounded queue of the reporting pipeline (component E). Its
  code is not among the sources at hand; the definitions follow section 4.E. A queue has
  a maximum item count and a maximum accumulated byte size, holds its items with their byte
  sizes in enqueue order, keeps the byte total, and counts the dropped items.
\<close>

record 'a queue =
  max_items :: nat
  max_bytes :: nat
  items :: "('a \<times> nat) list"
  byte_total :: nat
  dropped :: nat

text \<open>Modelled from the spec: a queue as configured, before any enqueue.\<close>

definition new_queue :: "nat \<Rightarrow> nat \<Rightarrow> 'a queue" where
  "new_queue N B = \<lparr> max_items = N, max_bytes = B, items = [], byte_total = 0, dropped = 0 \<rparr>"

text \<open>
  Modelled from the spec: "Enqueue is non-blocking: if either bound would be exceeded, the
  item is dropped and a counter incremented". The function returns in every case; there is
  no state in which it waits.
\<close>

definition enqueue :: "'a \<Rightarrow> nat \<Rightarrow> 'a queue \<Rightarrow> 'a queue" where
  "enqueue x sz q =
     (if length (items q) + 1 > max_items q \<or> byte_total q + sz > max_bytes q
      then q\<lparr> dropped := dropped q + 1 \<rparr>
      else q\<lparr> items := items q @ [(x, sz)], byte_total := byte_total q + sz \<rparr>)"

text \<open>
  Modelled from the spec: "Byte accounting is maintained so that dequeue decrements the
  byte total". A dequeue on the empty queue is the one whose timeout passes: it returns
  nothing.
\<close>

definition dequeue :: "'a queue \<Rightarrow> ('a \<times> nat) option \<times> 'a queue" where
  "dequeue q =
     (case items q of
        [] \<Rightarrow> (None, q)
      | (x, sz) # rest \<Rightarrow> (Some (x, sz), q\<lparr> items := rest, byte_total := byte_total q - sz \<rparr>))"

text \<open>
  Modelled from the spec: the states a queue reaches are those a sequence of enqueues and
  dequeues leads to, the operations of concurrent producers and of the consumer taken one
  at a time.
\<close>

datatype 'a queue_op = Enqueue 'a nat | Dequeue

fun apply_op :: "'a queue_op \<Rightarrow> 'a queue \<Rightarrow> 'a queue" where
  "apply_op (Enqueue x sz) q = enqueue x sz q"
| "apply_op Dequeue q = snd (dequeue q)"

definition run_ops :: "'a queue_op list \<Rightarrow> 'a queue \<Rightarrow> 'a queue" where
  "run_ops ops q = fold apply_op ops q"

text \<open>Ten spans of 100 bytes finished in a row, as in the overflow scenario S6.\<close>

definition ten_spans :: "nat queue_op list" where
  "ten_spans = map (\<lambda>i. Enqueue i 100) [0..<10]"


section \<open>The span processor: export and retry\<close>














section \<open>The wire carrier codec\<close>

text \<open>
  Modelled from the spec: the header codec of the context carrier (component C, section
  4.C), whose code is not among the sources at hand. Identifiers are lowercase hex strings
  of a fixed length.
\<close>

definition hex_chars :: string where
  "hex_chars = ''0123456789abcdef''"

definition is_hex :: "nat \<Rightarrow> string \<Rightarrow> bool" where
  "is_hex n s \<longleftrightarrow> length s = n \<and> list_all (\<lambda>c. c \<in> set hex_chars) s"

text \<open>
  Modelled from the spec: the segments of a header value between separators, and the
  segments put together again.
\<close>

fun split_on :: "char \<Rightarrow> string \<Rightarrow> string list" where
  "split_on c [] = [[]]"
| "split_on c (x # xs) =
     (if x = c then [] # split_on c xs
      else (case split_on c xs of [] \<Rightarrow> [[x]] | seg # segs \<Rightarrow> (x # seg) # segs))"

fun join :: "char \<Rightarrow> string list \<Rightarrow> string" where
  "join c [] = []"
| "join c [s] = s"
| "join c (s # t # ss) = s @ c # join c (t # ss)"

text \<open>
  Modelled from the spec: the "URL-encoded serialization" of a baggage key or value. The
  spec names no alphabet; this is query escaping: letters, digits and \<^verbatim>\<open>-_.~\<close> stand for
  themselves, a space is \<^verbatim>\<open>+\<close>, every other byte is \<^verbatim>\<open>%\<close> and two hex digits. Decoding
  fails on a \<^verbatim>\<open>%\<close> that two hex digits do not follow.
\<close>

definition hex_digit :: "nat \<Rightarrow> char" where
  "hex_digit n = ''0123456789ABCDEF'' ! n"

definition unhex :: "char \<Rightarrow> nat option" where
  "unhex c =
     (let n = of_char c :: nat in
        if 48 \<le> n \<and> n \<le> 57 then Some (n - 48)
        else if 65 \<le> n \<and> n \<le> 70 then Some (n - 55)
        else if 97 \<le> n \<and> n \<le> 102 then Some (n - 87)
        else None)"

definition unreserved :: "char \<Rightarrow> bool" where
  "unreserved c \<longleftrightarrow>
     c \<in> set ''ABCDEFGHIJKLMNOPQRSTUVWXYZabcdefghijklmnopqrstuvwxyz0123456789-_.~''"

definition encode_char :: "char \<Rightarrow> string" where
  "encode_char c =
     (if unreserved c then [c]
      else if c = CHR '' '' then ''+''
      else [CHR ''%'', hex_digit (of_char c div 16), hex_digit (of_char c mod 16)])"

definition url_encode :: "string \<Rightarrow> string" where
  "url_encode s = concat (map encode_char s)"

fun url_decode :: "string \<Rightarrow> string option" where
  "url_decode [] = Some []"
| "url_decode (c # cs) =
     (if c = CHR ''%'' then
        (case cs of
           h1 # h2 # rest \<Rightarrow>
             (case (unhex h1, unhex h2) of
                (Some a, Some b) \<Rightarrow> map_option (Cons (char_of (16 * a + b))) (url_decode rest)
              | _ \<Rightarrow> None)
         | _ \<Rightarrow> None)
      else if c = CHR ''+'' then map_option (Cons CHR '' '') (url_decode cs)
      else map_option (Cons c) (url_decode cs))"

text \<open>
  Modelled from the spec: the imported span context, "an opaque span-context with
  trace_id, span_id, baggage only". The baggage map is given by its entries in the order
  the serialization visits them.
\<close>

datatype codec_error = HeaderParent

record span_context =
  ctx_trace_id :: string
  ctx_span_id :: string
  ctx_baggage :: "(string \<times> string) list"

text \<open>
  Modelled from the spec: the export. \<^verbatim>\<open>X-Cozeloop-Traceparent\<close> is
  \<^verbatim>\<open>{version}-{trace_id}-{span_id}-{flags}\<close>, \<^verbatim>\<open>X-Cozeloop-Tracestate\<close> is the baggage as
  \<^verbatim>\<open>k1=v1,k2=v2,...\<close> with keys and values URL-encoded. The spec fixes neither the version
  nor the flags, so both are arguments.
\<close>

definition format_traceparent :: "string \<Rightarrow> string \<Rightarrow> string \<Rightarrow> string \<Rightarrow> string" where
  "format_traceparent version tid sid flags = join CHR ''-'' [version, tid, sid, flags]"

definition format_member :: "string \<times> string \<Rightarrow> string" where
  "format_member kv = url_encode (fst kv) @ CHR ''='' # url_encode (snd kv)"

definition format_tracestate :: "(string \<times> string) list \<Rightarrow> string" where
  "format_tracestate kvs = join CHR '','' (map format_member kvs)"

definition to_header :: "string \<Rightarrow> string \<Rightarrow> span_context \<Rightarrow> string \<times> string" where
  "to_header version flags ctx =
     (format_traceparent version (ctx_trace_id ctx) (ctx_span_id ctx) flags,
      format_tracestate (ctx_baggage ctx))"

text \<open>
  Modelled from the spec: the import of the tracestate. "On malformed tracestate, drop
  baggage silently": a member that is not \<^verbatim>\<open>key=value\<close> with decodable parts empties the
  baggage. An empty header is the empty baggage.
\<close>

definition parse_member :: "string \<Rightarrow> (string \<times> string) option" where
  "parse_member m =
     (case split_on CHR ''='' m of
        [k, v] \<Rightarrow>
          (case (url_decode k, url_decode v) of
             (Some k', Some v') \<Rightarrow> Some (k', v')
           | _ \<Rightarrow> None)
      | _ \<Rightarrow> None)"

fun parse_members :: "string list \<Rightarrow> (string \<times> string) list option" where
  "parse_members [] = Some []"
| "parse_members (m # ms) =
     (case parse_member m of
        None \<Rightarrow> None
      | Some kv \<Rightarrow> map_option (Cons kv) (parse_members ms))"

definition parse_tracestate :: "string \<Rightarrow> (string \<times> string) list option" where
  "parse_tracestate s = (if s = [] then Some [] else parse_members (split_on CHR '','' s))"

definition baggage_of :: "string \<Rightarrow> (string \<times> string) list" where
  "baggage_of s = (case parse_tracestate s of None \<Rightarrow> [] | Some kvs \<Rightarrow> kvs)"

text \<open>
  Modelled from the spec: the import. "On malformed traceparent (wrong hex length, wrong
  segment count, unknown version), fail with a dedicated HeaderParent error; return no span
  context." \<open>known\<close> lists the versions the parser knows.
\<close>

definition get_span_from_header :: "string list \<Rightarrow> string \<Rightarrow> string \<Rightarrow> codec_error + span_context" where
  "get_span_from_header known tp ts =
     (case split_on CHR ''-'' tp of
        [v, t, s, f] \<Rightarrow>
          if v \<in> set known \<and> is_hex 32 t \<and> is_hex 16 s \<and> is_hex 2 f
          then Inr \<lparr> ctx_trace_id = t, ctx_span_id = s, ctx_baggage = baggage_of ts \<rparr>
          else Inl HeaderParent
      | _ \<Rightarrow> Inl HeaderParent)"

text \<open>The span context of scenario S4.\<close>

definition s4_context :: span_context where
  "s4_context = \<lparr> ctx_trace_id = replicate 32 CHR ''a'', ctx_span_id = replicate 16 CHR ''b'',
      ctx_baggage = [(''k'', ''v''), (''x'', ''y z'')] \<rparr>"



section \<open>Notions of the specification\<close>

text \<open>
  The results of invoking a method of each exporter of a list once, in order, each on the
  world left by the one before, and the world left by the last.
\<close>

fun invoke_each ::
  "(('b, 'c, 'w) Exporter \<Rightarrow> 'w \<Rightarrow> error option \<times> 'w) \<Rightarrow> ('b, 'c, 'w) Exporter list \<Rightarrow> 'w
     \<Rightarrow> error option list \<times> 'w" where
  "invoke_each call [] w = ([], w)"
| "invoke_each call (e # es) w =
     (case call e w of (r, w') \<Rightarrow> (case invoke_each call es w' of (rs, w'') \<Rightarrow> (r # rs, w'')))"

text \<open>The first error of a list of results, \<open>None\<close> when every result is \<^verbatim>\<open>nil\<close>.\<close>

fun first_error :: "error option list \<Rightarrow> error option" where
  "first_error [] = None"
| "first_error (None # rs) = first_error rs"
| "first_error (Some e # rs) = Some e"

text \<open>The objects behind the non-\<^verbatim>\<open>nil\<close> entries of a list, in order.\<close>

fun non_nil :: "'a option list \<Rightarrow> 'a list" where
  "non_nil [] = []"
| "non_nil (None # xs) = non_nil xs"
| "non_nil (Some x # xs) = x # non_nil xs"




text \<open>The bytes a queue holds, and the invariant of a bounded queue.\<close>

definition held_bytes :: "'a queue \<Rightarrow> nat" where
  "held_bytes q = sum_list (map snd (items q))"

definition queue_inv :: "'a queue \<Rightarrow> bool" where
  "queue_inv q \<longleftrightarrow>
     length (items q) \<le> max_items q \<and> held_bytes q \<le> max_bytes q \<and> byte_total q = held_bytes q"




text \<open>
  A well-formed traceparent: four segments, a known version, a trace id of 32 hex
  characters, a span id of 16, flags of 2. Every other value is malformed.
\<close>

definition well_formed_traceparent :: "string list \<Rightarrow> string \<Rightarrow> bool" where
  "well_formed_traceparent known tp \<longleftrightarrow>
     (\<exists>v t s f. tp = v @ ''-'' @ t @ ''-'' @ s @ ''-'' @ f
        \<and> v \<in> set known \<and> is_hex 32 t \<and> is_hex 16 s \<and> is_hex 2 f)"



section \<open>Properties of MultiExporter\<close>

lemma filter_valid_eq: "filter_valid args acc = acc @ filter (\<lambda>e. e \<noteq> None) args"
  by (induction args arbitrary: acc) auto

lemma exporters_New: "exporters (NewMultiExporter args) = filter (\<lambda>e. e \<noteq> None) args"
  by (simp add: NewMultiExporter_def filter_valid_eq)

lemma filter_non_nil: "filter (\<lambda>e. e \<noteq> None) xs = map Some (non_nil xs)"
  by (induction xs rule: non_nil.induct) simp_all

lemma no_nil_map_Some: "None \<notin> set es \<Longrightarrow> es = map Some (non_nil es)"
  by (induction es rule: non_nil.induct) simp_all

lemma exporters_foldl_Add:
  "exporters (foldl AddExporter m added) = exporters m @ filter (\<lambda>e. e \<noteq> None) added"
  by (induction added arbitrary: m) (simp_all add: AddExporter_def)

lemma exporters_built: "exporters (built args added) = map Some (non_nil (args @ added))"
  by (simp add: built_def exporters_foldl_Add exporters_New flip: filter_non_nil)

text \<open>
  Claim C2. For every argument list, which may contain \<^verbatim>\<open>nil\<close> entries, the exporters
  wrapped by \<^verbatim>\<open>NewMultiExporter\<close> are exactly the non-\<^verbatim>\<open>nil\<close> arguments in their
  original order, and \<^verbatim>\<open>ExporterCount\<close> is the number of non-\<^verbatim>\<open>nil\<close> arguments.
\<close>

theorem NewMultiExporter_filters_nil:
  "exporters (NewMultiExporter args) = filter (\<lambda>e. e \<noteq> None) args
   \<and> exporters (NewMultiExporter args) = map Some (non_nil args)
   \<and> ExporterCount (NewMultiExporter args) = int (length (filter (\<lambda>e. e \<noteq> None) args))"
  by (simp add: exporters_New ExporterCount_def flip: filter_non_nil)

text \<open>The first test of \<^verbatim>\<open>TestNewMultiExporter\<close>: two mocks among two \<^verbatim>\<open>nil\<close>s.\<close>

theorem NewMultiExporter_filters_nil_witness:
  "exporters (NewMultiExporter [Some exp1, None, Some exp2, None]) = [Some exp1, Some exp2]
   \<and> ExporterCount (NewMultiExporter [Some exp1, None, Some exp2, None]) = 2"
  using NewMultiExporter_filters_nil [of "[Some exp1, None, Some exp2, None]"]
  by simp

text \<open>
  The loops on a list without \<^verbatim>\<open>nil\<close>: every exporter is invoked, whatever the earlier
  ones returned, and \<open>firstErr\<close> ends as the first error among the initial value and the
  results.
\<close>

lemma ExportSpans_loop_Some:
  "ExportSpans_loop (map Some es) spans fe tr w =
     (case invoke_each (\<lambda>e. ExportSpans_of e spans) es w of
        (rs, w') \<Rightarrow> Inr (first_error (fe # rs), tr @ map (\<lambda>e. SpansCall (ident e) spans) es, w'))"
proof (induction es arbitrary: fe tr w)
  case Nil
  show ?case by (cases fe) simp_all
next
  case (Cons e es)
  obtain r w1 where r: "ExportSpans_of e spans w = (r, w1)"
    by (cases "ExportSpans_of e spans w")
  obtain rs w2 where rs: "invoke_each (\<lambda>e. ExportSpans_of e spans) es w1 = (rs, w2)"
    by (cases "invoke_each (\<lambda>e. ExportSpans_of e spans) es w1")
  show ?case
    by (cases fe; cases r) (simp_all add: Cons.IH r rs)
qed

lemma ExportFiles_loop_Some:
  "ExportFiles_loop (map Some es) files fe tr w =
     (case invoke_each (\<lambda>e. ExportFiles_of e files) es w of
        (rs, w') \<Rightarrow> Inr (first_error (fe # rs), tr @ map (\<lambda>e. FilesCall (ident e) files) es, w'))"
proof (induction es arbitrary: fe tr w)
  case Nil
  show ?case by (cases fe) simp_all
next
  case (Cons e es)
  obtain r w1 where r: "ExportFiles_of e files w = (r, w1)"
    by (cases "ExportFiles_of e files w")
  obtain rs w2 where rs: "invoke_each (\<lambda>e. ExportFiles_of e files) es w1 = (rs, w2)"
    by (cases "invoke_each (\<lambda>e. ExportFiles_of e files) es w1")
  show ?case
    by (cases fe; cases r) (simp_all add: Cons.IH r rs)
qed

lemma ExportSpans_returns: "None \<notin> set (exporters m) \<Longrightarrow> \<exists>r. ExportSpans m spans w = Inr r"
proof -
  assume "None \<notin> set (exporters m)"
  then have e: "exporters m = map Some (non_nil (exporters m))" by (rule no_nil_map_Some)
  show ?thesis
    unfolding ExportSpans_def
    by (subst (2) e) (simp add: ExportSpans_loop_Some split: prod.splits)
qed

lemma ExportFiles_returns: "None \<notin> set (exporters m) \<Longrightarrow> \<exists>r. ExportFiles m files w = Inr r"
proof -
  assume "None \<notin> set (exporters m)"
  then have e: "exporters m = map Some (non_nil (exporters m))" by (rule no_nil_map_Some)
  show ?thesis
    unfolding ExportFiles_def
    by (subst (2) e) (simp add: ExportFiles_loop_Some split: prod.splits)
qed

text \<open>
  Claim C1. For every multi-exporter \<open>m\<close> wrapping the exporters \<open>es\<close> and every batch,
  \<^verbatim>\<open>m.ExportSpans\<close> invokes \<^verbatim>\<open>ExportSpans\<close> of every wrapped exporter exactly once, in
  order, with the full batch (the calls made are one \<open>SpansCall\<close> per entry of \<open>es\<close>, each
  with \<open>spans\<close>, and the world left is the one left by running them one after the other),
  also when earlier exporters return an error, and it returns the first error among the
  results of the children, \<^verbatim>\<open>nil\<close> when every child succeeds. \<^verbatim>\<open>ExportFiles\<close> likewise.
\<close>

theorem MultiExporter_invokes_every_child:
  "exporters m = map Some es \<Longrightarrow>
     ExportSpans m spans w =
       (case invoke_each (\<lambda>e. ExportSpans_of e spans) es w of
          (rs, w') \<Rightarrow> Inr (first_error rs, map (\<lambda>e. SpansCall (ident e) spans) es, w'))
     \<and> ExportFiles m files w =
       (case invoke_each (\<lambda>e. ExportFiles_of e files) es w of
          (rs, w') \<Rightarrow> Inr (first_error rs, map (\<lambda>e. FilesCall (ident e) files) es, w'))"
  by (cases es) (simp_all add: ExportSpans_def ExportFiles_def ExportSpans_loop_Some
      ExportFiles_loop_Some split: prod.splits)

text \<open>
  The tests "should return first error when multiple exporters fail" and "should continue
  if one exporter fails": both mocks are called with the batch, the error is the first one.
\<close>

theorem MultiExporter_invokes_every_child_witness:
  "exporters (NewMultiExporter [Some exp1, Some exp2]) = map Some [exp1, exp2]
   \<and> (case ExportSpans (NewMultiExporter [Some exp1, Some exp2]) [''test''] test_heap of
         Inl p \<Rightarrow> False
       | Inr (r, tr, h) \<Rightarrow>
           r = Some (Error ''first error'')
           \<and> tr = [SpansCall 1 [''test''], SpansCall 2 [''test'']]
           \<and> exportSpansCalled (h 1) \<and> exportSpansCalled (h 2)
           \<and> exportedSpans (h 1) = Some [''test''] \<and> exportedSpans (h 2) = Some [''test''])
   \<and> (case ExportFiles (NewMultiExporter [Some exp1, Some exp2]) [''key''] test_heap of
         Inl p \<Rightarrow> False
       | Inr (r, tr, h) \<Rightarrow>
           r = Some (Error ''exp1 error'')
           \<and> tr = [FilesCall 1 [''key''], FilesCall 2 [''key'']]
           \<and> exportFilesCalled (h 1) \<and> exportFilesCalled (h 2))"
proof -
  have h: "exporters (NewMultiExporter [Some exp1, Some exp2]) = map Some [exp1, exp2]"
    by (simp add: NewMultiExporter_def)
  show ?thesis
    using h MultiExporter_invokes_every_child [OF h, of "[''test'']" test_heap "[''key'']"]
    by (simp add: exp1_def exp2_def mock_def test_heap_def fresh_mock_def)
qed

text \<open>
  Claim C3. A multi-exporter constructed from an empty or all-\<^verbatim>\<open>nil\<close> argument list wraps
  zero exporters, and its \<^verbatim>\<open>ExportSpans\<close> and \<^verbatim>\<open>ExportFiles\<close> return \<^verbatim>\<open>nil\<close> for every
  batch, with no call made and the world untouched.
\<close>

theorem MultiExporter_empty_returns_nil:
  "\<forall>e \<in> set args. e = None \<Longrightarrow>
     exporters (NewMultiExporter args) = []
     \<and> ExporterCount (NewMultiExporter args) = 0
     \<and> ExportSpans (NewMultiExporter args) spans w = Inr (None, [], w)
     \<and> ExportFiles (NewMultiExporter args) files w = Inr (None, [], w)"
proof -
  assume "\<forall>e \<in> set args. e = None"
  then have "filter (\<lambda>e. e \<noteq> None) args = []"
    by (simp add: filter_empty_conv)
  then have "exporters (NewMultiExporter args) = []"
    by (simp add: exporters_New)
  then show ?thesis
    by (simp add: ExportSpans_def ExportFiles_def ExporterCount_def)
qed

text \<open>The tests "with no exporters should return nil", and the all-\<^verbatim>\<open>nil\<close> construction.\<close>

theorem MultiExporter_empty_returns_nil_witness:
  "ExportSpans (NewMultiExporter [None, None :: test_iface]) [''test''] test_heap
       = Inr (None, [], test_heap)
   \<and> ExportFiles (NewMultiExporter [None, None :: test_iface]) [''key''] test_heap
       = Inr (None, [], test_heap)
   \<and> ExportSpans (NewMultiExporter ([] :: test_iface list)) [''test''] test_heap
       = Inr (None, [], test_heap)
   \<and> ExportFiles (NewMultiExporter ([] :: test_iface list)) [''key''] test_heap
       = Inr (None, [], test_heap)"
  using MultiExporter_empty_returns_nil [of "[None, None :: test_iface]" "[''test'']" test_heap "[''key'']"]
    MultiExporter_empty_returns_nil [of "[] :: test_iface list" "[''test'']" test_heap "[''key'']"]
  by simp

text \<open>
  Claim C10. The list of wrapped exporters never contains \<^verbatim>\<open>nil\<close>: it does not after
  \<^verbatim>\<open>NewMultiExporter\<close>, every \<^verbatim>\<open>AddExporter\<close> call preserves that (a \<^verbatim>\<open>nil\<close> argument is
  ignored), so it holds of every multi-exporter built by the constructor and any sequence
  of \<^verbatim>\<open>AddExporter\<close> calls, and on those \<^verbatim>\<open>ExportSpans\<close> and \<^verbatim>\<open>ExportFiles\<close> return: the
  panic of a call through a \<^verbatim>\<open>nil\<close> exporter does not occur.
\<close>

theorem MultiExporter_never_holds_nil:
  "None \<notin> set (exporters (NewMultiExporter args))
   \<and> (None \<notin> set (exporters m) \<longrightarrow> None \<notin> set (exporters (AddExporter m e)))
   \<and> exporters (AddExporter m None) = exporters m
   \<and> None \<notin> set (exporters (built args added))
   \<and> (\<exists>r. ExportSpans (built args added) spans w = Inr r)
   \<and> (\<exists>r. ExportFiles (built args added) files w = Inr r)"
proof -
  have b: "None \<notin> set (exporters (built args added))"
    by (auto simp: exporters_built)
  show ?thesis
    using b ExportSpans_returns [OF b] ExportFiles_returns [OF b]
    by (auto simp: exporters_New AddExporter_def)
qed

text \<open>The test "should not add nil exporter", and a multi-exporter built in two steps.\<close>

theorem MultiExporter_never_holds_nil_witness:
  "None \<notin> set (exporters (NewMultiExporter [None, Some exp1]))
   \<and> exporters (AddExporter (NewMultiExporter [None, Some exp1]) None) = [Some exp1]
   \<and> None \<notin> set (exporters (AddExporter (NewMultiExporter [None, Some exp1]) None))
   \<and> exporters (built [None, Some exp1] [None, Some exp2]) = [Some exp1, Some exp2]
   \<and> (\<exists>r. ExportSpans (built [None, Some exp1] [None, Some exp2]) [''test''] test_heap = Inr r)"
  using MultiExporter_never_holds_nil
    [of "[None, Some exp1]" "NewMultiExporter [None, Some exp1]" None "[None, Some exp2]"
        "[''test'']" test_heap "[''key'']"]
  by (simp add: NewMultiExporter_def AddExporter_def built_def)


section \<open>Properties of FileExporter\<close>










text \<open>
  Claim C8. \<^verbatim>\<open>FileExporter.ExportFiles\<close> returns \<^verbatim>\<open>nil\<close> for every file list and every
  exporter, performs no file-system operation and leaves the file system as it was.
\<close>

theorem FileExporter_ExportFiles_noop:
  "FileExporter_ExportFiles e files fs = (None, [], fs)"
  by (simp add: FileExporter_ExportFiles_def)

text \<open>The test "should return nil (no-op)": one file with key and data.\<close>

theorem FileExporter_ExportFiles_noop_witness:
  "FileExporter_ExportFiles (NewFileExporter []) [(''key1'', ''data1'')] (test_fs 100)
     = (None, [], test_fs 100)"
  using FileExporter_ExportFiles_noop [of "NewFileExporter []" "[(''key1'', ''data1'')]" "test_fs 100"]
  by simp







section \<open>Properties of the bounded queue\<close>

lemma queue_inv_new: "queue_inv (new_queue N B)"
  by (simp add: queue_inv_def new_queue_def held_bytes_def)

lemma queue_inv_enqueue: "queue_inv q \<Longrightarrow> queue_inv (enqueue x sz q)"
  by (auto simp: queue_inv_def enqueue_def held_bytes_def)

lemma queue_inv_dequeue: "queue_inv q \<Longrightarrow> queue_inv (snd (dequeue q))"
  by (auto simp: queue_inv_def dequeue_def held_bytes_def split: list.splits)

lemma bounds_enqueue: "max_items (enqueue x sz q) = max_items q" "max_bytes (enqueue x sz q) = max_bytes q"
  by (simp_all add: enqueue_def)

lemma bounds_dequeue: "max_items (snd (dequeue q)) = max_items q" "max_bytes (snd (dequeue q)) = max_bytes q"
  by (simp_all add: dequeue_def split: list.splits)

lemma run_ops_inv: "queue_inv q \<Longrightarrow> queue_inv (run_ops ops q) \<and> max_items (run_ops ops q) = max_items q
    \<and> max_bytes (run_ops ops q) = max_bytes q"
  unfolding run_ops_def
proof (induction ops arbitrary: q)
  case Nil
  then show ?case by simp
next
  case (Cons a ops)
  then show ?case
    by (cases a) (simp_all add: queue_inv_enqueue queue_inv_dequeue bounds_enqueue bounds_dequeue)
qed

text \<open>
  Claim C7. For every bounded queue configured with maximum item count \<open>N\<close> and maximum
  byte size \<open>B\<close>, in every state reached by enqueues and dequeues the queue holds at most
  \<open>N\<close> items and at most \<open>B\<close> accumulated bytes, and the byte total it keeps is the sum of
  the sizes it holds. An enqueue that would exceed either bound drops the item: the items
  stay as they are and the drop counter goes up by one; any other enqueue admits the item
  at the end. Enqueue is a function that returns in both cases.
\<close>

theorem queue_never_exceeds_bounds:
  "length (items (run_ops ops (new_queue N B))) \<le> N
   \<and> held_bytes (run_ops ops (new_queue N B)) \<le> B
   \<and> byte_total (run_ops ops (new_queue N B)) = held_bytes (run_ops ops (new_queue N B))
   \<and> (length (items q) + 1 > max_items q \<or> byte_total q + sz > max_bytes q \<longrightarrow>
        items (enqueue x sz q) = items q \<and> byte_total (enqueue x sz q) = byte_total q
        \<and> dropped (enqueue x sz q) = dropped q + 1)
   \<and> (length (items q) + 1 \<le> max_items q \<and> byte_total q + sz \<le> max_bytes q \<longrightarrow>
        items (enqueue x sz q) = items q @ [(x, sz)] \<and> dropped (enqueue x sz q) = dropped q)"
proof -
  from run_ops_inv [OF queue_inv_new, of ops N B]
  have "queue_inv (run_ops ops (new_queue N B))"
    "max_items (run_ops ops (new_queue N B)) = N" "max_bytes (run_ops ops (new_queue N B)) = B"
    by (simp_all add: new_queue_def)
  then show ?thesis
    by (auto simp: queue_inv_def enqueue_def)
qed

text \<open>
  Scenario S6: ten spans into a queue of four items leave four queued and six dropped; a
  byte bound of 250 admits two spans of 100 bytes.
\<close>

theorem queue_never_exceeds_bounds_witness:
  "map fst (items (run_ops ten_spans (new_queue 4 1000))) = [0, 1, 2, 3]
   \<and> dropped (run_ops ten_spans (new_queue 4 1000)) = 6
   \<and> length (items (run_ops ten_spans (new_queue 4 1000))) \<le> 4
   \<and> map fst (items (run_ops ten_spans (new_queue 20 250))) = [0, 1]
   \<and> held_bytes (run_ops ten_spans (new_queue 20 250)) \<le> 250
   \<and> dropped (enqueue (7::nat) 100 (run_ops ten_spans (new_queue 4 1000))) = 7"
proof -
  have a: "map fst (items (run_ops ten_spans (new_queue 4 1000))) = [0, 1, 2, 3]" by code_simp
  have b: "dropped (run_ops ten_spans (new_queue 4 1000)) = 6" by code_simp
  have c: "map fst (items (run_ops ten_spans (new_queue 20 250))) = [0, 1]" by code_simp
  have full: "length (items (run_ops ten_spans (new_queue 4 1000))) + 1 > max_items (run_ops ten_spans (new_queue 4 1000))"
    by code_simp
  note T = queue_never_exceeds_bounds [where ops = ten_spans and q = "run_ops ten_spans (new_queue 4 1000)"
      and x = 7 and sz = 100]
  from T [of 4 1000] have d: "length (items (run_ops ten_spans (new_queue 4 1000))) \<le> 4" by blast
  from T [of 20 250] have e: "held_bytes (run_ops ten_spans (new_queue 20 250)) \<le> 250" by blast
  from T [of 4 1000] full b have f: "dropped (enqueue (7::nat) 100 (run_ops ten_spans (new_queue 4 1000))) = 7"
    by simp
  show ?thesis by (intro conjI a b c d e f)
qed

section \<open>Properties of the span processor\<close>











section \<open>Properties of the wire carrier codec\<close>

lemma hex_digit_table:
  "\<forall>n \<in> set [0..<16]. unhex (hex_digit n) = Some n
      \<and> hex_digit n \<noteq> CHR '','' \<and> hex_digit n \<noteq> CHR ''=''"
  by code_simp

lemma hex_digit_props:
  assumes "n < 16"
  shows "unhex (hex_digit n) = Some n" "hex_digit n \<noteq> CHR '',''" "hex_digit n \<noteq> CHR ''=''"
  using hex_digit_table assms by auto

lemma unreserved_not_special:
  "unreserved c \<Longrightarrow> c \<noteq> CHR ''%'' \<and> c \<noteq> CHR ''+'' \<and> c \<noteq> CHR '','' \<and> c \<noteq> CHR ''=''"
  by (auto simp: unreserved_def)

lemma url_decode_encode_char:
  "url_decode (encode_char c @ rest) = map_option (Cons c) (url_decode rest)"
proof -
  let ?n = "of_char c :: nat"
  have "?n < 256" by simp
  then have lt: "?n div 16 < 16" "?n mod 16 < 16"
    by presburger+
  have rt: "char_of (16 * (?n div 16) + ?n mod 16) = c"
    by simp
  show ?thesis
    using unreserved_not_special [of c] hex_digit_props(1) [OF lt(1)] hex_digit_props(1) [OF lt(2)] rt
    by (simp add: encode_char_def)
qed

lemma url_decode_encode: "url_decode (url_encode s @ rest) = map_option ((@) s) (url_decode rest)"
  by (induction s) (simp_all add: url_encode_def url_decode_encode_char option.map_comp comp_def
      option.map_ident)

lemma encode_char_no_sep: "CHR '','' \<notin> set (encode_char c) \<and> CHR ''='' \<notin> set (encode_char c)"
proof -
  let ?n = "of_char c :: nat"
  have "?n < 256" by simp
  then have lt: "?n div 16 < 16" "?n mod 16 < 16"
    by presburger+
  show ?thesis
    using unreserved_not_special [of c] hex_digit_props(2,3) [OF lt(1)] hex_digit_props(2,3) [OF lt(2)]
    by (auto simp: encode_char_def)
qed

lemma url_encode_no_sep: "CHR '','' \<notin> set (url_encode s)" "CHR ''='' \<notin> set (url_encode s)"
  using encode_char_no_sep by (auto simp: url_encode_def)

lemma split_on_no_sep: "c \<notin> set s \<Longrightarrow> split_on c s = [s]"
  by (induction s) auto

lemma split_on_append: "c \<notin> set s \<Longrightarrow> split_on c (s @ c # rest) = s # split_on c rest"
  by (induction s) auto

lemma split_on_nonempty: "split_on c s \<noteq> []"
  by (induction s) (auto split: list.splits)

lemma join_split_on: "join c (split_on c s) = s"
proof (induction s)
  case Nil
  then show ?case by simp
next
  case (Cons x xs)
  obtain seg segs where sp: "split_on c xs = seg # segs"
    using split_on_nonempty [of c xs] by (cases "split_on c xs") auto
  with Cons show ?case
    by (cases segs) auto
qed

lemma dash_not_hex: "CHR ''-'' \<notin> set hex_chars"
  by (simp add: hex_chars_def)

lemma is_hex_no_dash: "is_hex n s \<Longrightarrow> CHR ''-'' \<notin> set s"
proof
  assume h: "is_hex n s" and m: "CHR ''-'' \<in> set s"
  from h have "\<forall>c \<in> set s. c \<in> set hex_chars"
    by (simp add: is_hex_def list_all_iff)
  with m have "CHR ''-'' \<in> set hex_chars" by (rule bspec [rotated])
  with dash_not_hex show False by (rule notE)
qed

lemma split_on_join:
  "ms \<noteq> [] \<Longrightarrow> \<forall>m \<in> set ms. c \<notin> set m \<Longrightarrow> split_on c (join c ms) = ms"
proof (induction c ms rule: join.induct)
  case (1 c)
  then show ?case by simp
next
  case (2 c s)
  then show ?case by (simp add: split_on_no_sep)
next
  case (3 c s t ss)
  then show ?case by (simp add: split_on_append)
qed

lemma parse_member_format: "parse_member (format_member kv) = Some kv"
proof -
  have "split_on CHR ''='' (format_member kv) = [url_encode (fst kv), url_encode (snd kv)]"
    by (simp add: format_member_def split_on_append split_on_no_sep url_encode_no_sep)
  moreover have "url_decode (url_encode s) = Some s" for s
    using url_decode_encode [of s "[]"] by simp
  ultimately show ?thesis
    by (simp add: parse_member_def)
qed

lemma format_member_no_comma: "CHR '','' \<notin> set (format_member kv)"
  by (simp add: format_member_def url_encode_no_sep)

lemma parse_members_format: "parse_members (map format_member kvs) = Some kvs"
  by (induction kvs) (simp_all add: parse_member_format)

lemma join_nonempty: "ms \<noteq> [] \<Longrightarrow> \<forall>m \<in> set ms. m \<noteq> [] \<Longrightarrow> join c ms \<noteq> []"
  by (induction c ms rule: join.induct) simp_all

lemma parse_tracestate_format: "parse_tracestate (format_tracestate kvs) = Some kvs"
proof (cases kvs)
  case Nil
  then show ?thesis by (simp add: parse_tracestate_def format_tracestate_def)
next
  case (Cons kv rest)
  have ne: "map format_member kvs \<noteq> []" using Cons by simp
  have "\<forall>m \<in> set (map format_member kvs). m \<noteq> []"
    by (auto simp: format_member_def)
  from join_nonempty [OF ne this] have "format_tracestate kvs \<noteq> []"
    by (simp add: format_tracestate_def)
  moreover have "split_on CHR '','' (format_tracestate kvs) = map format_member kvs"
    unfolding format_tracestate_def
    by (rule split_on_join [OF ne]) (auto simp: format_member_no_comma)
  ultimately show ?thesis
    by (simp add: parse_tracestate_def parse_members_format)
qed

lemma parse_success_well_formed:
  "get_span_from_header known tp ts = Inr ctx \<Longrightarrow> well_formed_traceparent known tp"
proof -
  assume ok: "get_span_from_header known tp ts = Inr ctx"
  then obtain v t s f where sp: "split_on CHR ''-'' tp = [v, t, s, f]"
    and chk: "v \<in> set known" "is_hex 32 t" "is_hex 16 s" "is_hex 2 f"
    by (auto simp: get_span_from_header_def split: list.splits if_splits)
  from join_split_on [of "CHR ''-''" tp] sp have "tp = v @ ''-'' @ t @ ''-'' @ s @ ''-'' @ f"
    by simp
  with chk show ?thesis
    unfolding well_formed_traceparent_def by blast
qed

text \<open>
  Claim C5. For every trace id of 32 lowercase hex characters, span id of 16 and baggage
  of string pairs, parsing the two headers that formatting produces gives back exactly the
  trace id, the span id and the baggage (with a version the parser knows and two hex
  characters each for version and flags). Parsing a traceparent that is not well-formed
  yields \<open>HeaderParent\<close>; the parser is a total function and the error carries no span
  context.
\<close>

theorem header_round_trip:
  "is_hex 32 tid \<Longrightarrow> is_hex 16 sid \<Longrightarrow> is_hex 2 version \<Longrightarrow> version \<in> set known \<Longrightarrow> is_hex 2 flags \<Longrightarrow>
     get_span_from_header known
         (fst (to_header version flags \<lparr> ctx_trace_id = tid, ctx_span_id = sid, ctx_baggage = baggage \<rparr>))
         (snd (to_header version flags \<lparr> ctx_trace_id = tid, ctx_span_id = sid, ctx_baggage = baggage \<rparr>))
       = Inr \<lparr> ctx_trace_id = tid, ctx_span_id = sid, ctx_baggage = baggage \<rparr>
     \<and> (\<not> well_formed_traceparent known tp \<longrightarrow> get_span_from_header known tp ts = Inl HeaderParent)"
proof -
  assume h: "is_hex 32 tid" "is_hex 16 sid" "is_hex 2 version" "version \<in> set known" "is_hex 2 flags"
  have "split_on CHR ''-'' (format_traceparent version tid sid flags) = [version, tid, sid, flags]"
    unfolding format_traceparent_def
    using h by (intro split_on_join) (auto dest: is_hex_no_dash)
  with h have rt: "get_span_from_header known
         (fst (to_header version flags \<lparr> ctx_trace_id = tid, ctx_span_id = sid, ctx_baggage = baggage \<rparr>))
         (snd (to_header version flags \<lparr> ctx_trace_id = tid, ctx_span_id = sid, ctx_baggage = baggage \<rparr>))
       = Inr \<lparr> ctx_trace_id = tid, ctx_span_id = sid, ctx_baggage = baggage \<rparr>"
    by (simp add: get_span_from_header_def to_header_def baggage_of_def parse_tracestate_format)
  have "\<not> well_formed_traceparent known tp \<longrightarrow> get_span_from_header known tp ts = Inl HeaderParent"
  proof
    assume nwf: "\<not> well_formed_traceparent known tp"
    show "get_span_from_header known tp ts = Inl HeaderParent"
    proof (cases "get_span_from_header known tp ts")
      case (Inl e)
      then show ?thesis by (cases e) simp
    next
      case (Inr ctx)
      from parse_success_well_formed [OF this] nwf show ?thesis by simp
    qed
  qed
  with rt show ?thesis by (rule conjI)
qed

text \<open>
  Scenario S4: the headers of the context with trace id \<^verbatim>\<open>a\<close> x 32, span id \<^verbatim>\<open>b\<close> x 16
  and baggage \<^verbatim>\<open>{k: v, x: "y z"}\<close>, parsed back; a traceparent with short identifiers and
  one with an unknown version are refused.
\<close>

theorem header_round_trip_witness:
  "to_header ''00'' ''01'' s4_context
     = (''00-aaaaaaaaaaaaaaaaaaaaaaaaaaaaaaaa-bbbbbbbbbbbbbbbb-01'', ''k=v,x=y+z'')
   \<and> get_span_from_header [''00''] (fst (to_header ''00'' ''01'' s4_context))
         (snd (to_header ''00'' ''01'' s4_context)) = Inr s4_context
   \<and> get_span_from_header [''00''] ''00-abc-def-01'' ''k=v'' = Inl HeaderParent
   \<and> get_span_from_header [''00''] ''ff-aaaaaaaaaaaaaaaaaaaaaaaaaaaaaaaa-bbbbbbbbbbbbbbbb-01'' ''k=v''
       = Inl HeaderParent"
proof -
  have h: "is_hex 32 (replicate 32 CHR ''a'')" "is_hex 16 (replicate 16 CHR ''b'')"
    "is_hex 2 ''00''" "''00'' \<in> set [''00'']" "is_hex 2 ''01''"
    by code_simp+
  have fmt: "to_header ''00'' ''01'' s4_context
     = (''00-aaaaaaaaaaaaaaaaaaaaaaaaaaaaaaaa-bbbbbbbbbbbbbbbb-01'', ''k=v,x=y+z'')"
    by code_simp
  note T = header_round_trip [where tid = "replicate 32 CHR ''a''" and sid = "replicate 16 CHR ''b''"
      and version = "''00''" and known = "[''00'']" and flags = "''01''"
      and baggage = "[(''k'', ''v''), (''x'', ''y z'')]" and tp = "''00-abc-def-01''" and ts = "''k=v''",
      OF h]
  from conjunct1 [OF T]
  have rt: "get_span_from_header [''00''] (fst (to_header ''00'' ''01'' s4_context))
         (snd (to_header ''00'' ''01'' s4_context)) = Inr s4_context"
    unfolding s4_context_def .
  have bad1: "get_span_from_header [''00''] ''00-abc-def-01'' ''k=v'' = Inl HeaderParent"
    by code_simp
  have bad2: "get_span_from_header [''00''] ''ff-aaaaaaaaaaaaaaaaaaaaaaaaaaaaaaaa-bbbbbbbbbbbbbbbb-01'' ''k=v''
       = Inl HeaderParent"
    by code_simp
  show ?thesis
    by (intro conjI fmt rt bad1 bad2)
qed

end
